theory Spec2Isabelle
  imports Complex_Main "HOL-Library.FSet" "HOL-Library.AList"
begin

section \<open>Trotter time-evolution circuits of quri-algo\<close>

text \<open>
  The development follows \<^verbatim>\<open>quri_algo/circuit/time_evolution/trotter_time_evo.py\<close> and
  \<^verbatim>\<open>quri_algo/circuit/hadamard_test.py\<close>.  Both build on the circuit and operator
  classes of the library quri-parts, whose code is not part of the repository.
  The library's values are modelled by what they hold: a circuit is its qubit
  count and its gate list, an operator is the insertion-ordered list of its
  items, a Pauli label is a finite set of (qubit, Pauli) pairs.  The library's
  operations on circuits, labels and operators are modelled on well-formed
  input, as total functions: the library's own validation (of qubit indices
  against the qubit count, of the number of bound values) is outside the model.
  The failures of the model are the \<^verbatim>\<open>assert\<close> and \<^verbatim>\<open>raise\<close> statements of the
  repository's own code, and those of the library's Suzuki decomposition, which
  is a parameter.  Python floats are modelled by real numbers, so rounding errors
  of float64 arithmetic, infinities and NaN are outside the model; Python's
  unbounded integers are \<open>int\<close>, qubit indices and counts are \<open>nat\<close>.
\<close>

subsection \<open>Errors\<close>

datatype error = AssertionError string | ValueError string

subsection \<open>Pauli labels and operators\<close>

datatype SinglePauli = Pauli_X | Pauli_Y | Pauli_Z

text \<open>
  \<^verbatim>\<open>PauliLabel\<close> is a frozenset of (qubit index, Pauli id) pairs, compared by
  content; \<^verbatim>\<open>PAULI_IDENTITY\<close> is the empty one.
\<close>

type_synonym PauliLabel = "(nat \<times> SinglePauli) fset"

definition PAULI_IDENTITY :: PauliLabel where
  "PAULI_IDENTITY = {||}"

text \<open>
  \<^verbatim>\<open>Operator\<close> is a dict from Pauli label to complex coefficient; \<^verbatim>\<open>items()\<close> lists
  it in insertion order.
\<close>

type_synonym Operator = "(PauliLabel \<times> complex) list"

subsection \<open>Circuits\<close>

text \<open>
  The gates that the repository's code emits, and their inverses.  A Pauli
  rotation carries the label it rotates about: which Pauli acts on which qubit.
\<close>

datatype QuantumGate =
    H_gate nat
  | S_gate nat
  | Sdag_gate nat
  | RZ_gate nat real
  | PauliRotation_gate PauliLabel real

record QuantumCircuit =
  qubit_count :: nat
  gates :: "QuantumGate list"

definition new_QuantumCircuit :: "nat \<Rightarrow> QuantumCircuit" where
  "new_QuantumCircuit n = \<lparr>qubit_count = n, gates = []\<rparr>"

definition add_H_gate :: "QuantumCircuit \<Rightarrow> nat \<Rightarrow> QuantumCircuit" where
  "add_H_gate c q = c\<lparr>gates := gates c @ [H_gate q]\<rparr>"

definition add_Sdag_gate :: "QuantumCircuit \<Rightarrow> nat \<Rightarrow> QuantumCircuit" where
  "add_Sdag_gate c q = c\<lparr>gates := gates c @ [Sdag_gate q]\<rparr>"

text \<open>\<^verbatim>\<open>circuit.extend(other)\<close> and \<^verbatim>\<open>circuit += other\<close>: the gates of the other
  circuit are appended, the qubit count stays.  (The name \<open>extend\<close> is taken by the
  record package.)\<close>

definition extend_circuit :: "QuantumCircuit \<Rightarrow> QuantumCircuit \<Rightarrow> QuantumCircuit" where
  "extend_circuit c other = c\<lparr>gates := gates c @ gates other\<rparr>"



subsection \<open>The Hadamard test circuit\<close>

text \<open>
  \<^verbatim>\<open>construct_hadamard_circuit\<close> of \<^verbatim>\<open>hadamard_test.py\<close>.  The optional circuits
  default to \<^verbatim>\<open>None\<close>.
\<close>

definition construct_hadamard_circuit ::
  "QuantumCircuit \<Rightarrow> bool \<Rightarrow> QuantumCircuit option \<Rightarrow> QuantumCircuit option \<Rightarrow> QuantumCircuit"
where
  "construct_hadamard_circuit time_evolution_circuit test_real preprocess_circuit postprocess_circuit =
    (let circuit = new_QuantumCircuit (qubit_count time_evolution_circuit);
         circuit = add_H_gate circuit 0;
         circuit = (case preprocess_circuit of None \<Rightarrow> circuit | Some pre \<Rightarrow> extend_circuit circuit pre);
         circuit = extend_circuit circuit time_evolution_circuit;
         circuit = (case postprocess_circuit of None \<Rightarrow> circuit | Some post \<Rightarrow> extend_circuit circuit post);
         circuit = (if \<not> test_real then add_Sdag_gate circuit 0 else circuit)
     in add_H_gate circuit 0)"

subsection \<open>The step count of a fixed time step\<close>

text \<open>
  The numpy functions used by \<^verbatim>\<open>get_evolution_trotter_step\<close>, over the reals:
  \<^verbatim>\<open>np.rint\<close> rounds half to even, \<^verbatim>\<open>np.round(x, d)\<close> is \<^verbatim>\<open>rint(x * 10**d) / 10**d\<close>,
  \<^verbatim>\<open>np.isclose(a, b)\<close> is \<^verbatim>\<open>|a - b| <= atol + rtol * |b|\<close> with the default
  \<^verbatim>\<open>rtol = 1e-5\<close> and \<^verbatim>\<open>atol = 1e-8\<close>, and \<^verbatim>\<open>int\<close> truncates towards zero.
\<close>

definition np_rint :: "real \<Rightarrow> int" where
  "np_rint x =
    (let f = \<lfloor>x\<rfloor>; r = x - of_int f
     in if r < 1 / 2 then f else if 1 / 2 < r then f + 1 else if even f then f else f + 1)"

definition np_round :: "real \<Rightarrow> nat \<Rightarrow> real" where
  "np_round x d = of_int (np_rint (x * 10 ^ d)) / 10 ^ d"

definition np_isclose :: "real \<Rightarrow> real \<Rightarrow> bool" where
  "np_isclose a b = (\<bar>a - b\<bar> \<le> 1 / 10 ^ 8 + 1 / 10 ^ 5 * \<bar>b\<bar>)"

definition py_int :: "real \<Rightarrow> int" where
  "py_int x = (if 0 \<le> x then \<lfloor>x\<rfloor> else \<lceil>x\<rceil>)"

definition np_sign :: "real \<Rightarrow> real" where
  "np_sign x = (if x < 0 then - 1 else if x = 0 then 0 else 1)"

definition get_evolution_trotter_step :: "real \<Rightarrow> real \<Rightarrow> error + (int \<times> int)" where
  "get_evolution_trotter_step time_step evolution_time =
    (if \<not> 0 < time_step then Inl (AssertionError ''time step must be greater than 0.'')
     else
       let step = \<bar>evolution_time\<bar> / time_step
       in if \<not> np_isclose (np_round step 12) (of_int (py_int step))
          then Inl (ValueError ''Evolution time is not an integer muliple of time step.'')
          else Inr (py_int (np_round step 12), py_int (np_sign evolution_time)))"

subsection \<open>Parametric circuits\<close>

text \<open>
  \<^verbatim>\<open>LinearMappedUnboundParametricQuantumCircuit\<close>: a qubit count, the declared
  parameters, and parametric gates.  The angle of a parametric gate is a linear
  map of the parameters, the dict \<^verbatim>\<open>{t: c}\<close> of the source: the list of
  (parameter, coefficient) pairs.  \<^verbatim>\<open>freeze()\<close> returns the same circuit, read-only.
\<close>

type_synonym Parameter = string

type_synonym LinearMap = "(Parameter \<times> real) list"

datatype ParametricGate =
    ParametricRZ_gate nat LinearMap
  | ParametricPauliRotation_gate PauliLabel LinearMap

record ParametricCircuit =
  p_qubit_count :: nat
  p_parameters :: "Parameter list"
  p_gates :: "ParametricGate list"

definition new_ParametricCircuit :: "nat \<Rightarrow> ParametricCircuit" where
  "new_ParametricCircuit n = \<lparr>p_qubit_count = n, p_parameters = [], p_gates = []\<rparr>"

definition add_parameter :: "ParametricCircuit \<Rightarrow> Parameter \<Rightarrow> ParametricCircuit" where
  "add_parameter c name = c\<lparr>p_parameters := p_parameters c @ [name]\<rparr>"

definition add_ParametricRZ_gate :: "ParametricCircuit \<Rightarrow> nat \<Rightarrow> LinearMap \<Rightarrow> ParametricCircuit" where
  "add_ParametricRZ_gate c q angle = c\<lparr>p_gates := p_gates c @ [ParametricRZ_gate q angle]\<rparr>"

definition add_ParametricPauliRotation_gate ::
  "ParametricCircuit \<Rightarrow> PauliLabel \<Rightarrow> LinearMap \<Rightarrow> ParametricCircuit"
where
  "add_ParametricPauliRotation_gate c op angle =
    c\<lparr>p_gates := p_gates c @ [ParametricPauliRotation_gate op angle]\<rparr>"

text \<open>\<^verbatim>\<open>bind_parameters(values)\<close>: the i-th value is given to the i-th declared
  parameter, and each angle becomes the value of its linear map.\<close>

definition eval_LinearMap :: "(Parameter \<times> real) list \<Rightarrow> LinearMap \<Rightarrow> real" where
  "eval_LinearMap env angle =
    sum_list (map (\<lambda>(p, c). c * (case map_of env p of None \<Rightarrow> 0 | Some v \<Rightarrow> v)) angle)"

fun bind_gate :: "(Parameter \<times> real) list \<Rightarrow> ParametricGate \<Rightarrow> QuantumGate" where
  "bind_gate env (ParametricRZ_gate q angle) = RZ_gate q (eval_LinearMap env angle)"
| "bind_gate env (ParametricPauliRotation_gate op angle) =
     PauliRotation_gate op (eval_LinearMap env angle)"

definition bind_parameters :: "ParametricCircuit \<Rightarrow> real list \<Rightarrow> QuantumCircuit" where
  "bind_parameters c vals =
    \<lparr>qubit_count = p_qubit_count c,
     gates = map (bind_gate (zip (p_parameters c) vals)) (p_gates c)\<rparr>"

subsection \<open>Shifting a Hamiltonian\<close>

text \<open>
  \<^verbatim>\<open>Operator.add_term\<close> of the library: a zero coefficient adds nothing; the
  coefficient is added to the one the label has (a new label goes last), and a
  label whose coefficient becomes zero is deleted.
\<close>

definition add_term :: "Operator \<Rightarrow> PauliLabel \<Rightarrow> complex \<Rightarrow> Operator" where
  "add_term h op coef =
    (if coef = 0 then h
     else
       let v = (case map_of h op of None \<Rightarrow> 0 | Some c \<Rightarrow> c) + coef
       in if v = 0 then AList.delete op h else AList.update op v h)"

text \<open>The list comprehension of \<^verbatim>\<open>get_shifted_hamiltonian\<close>, made a label again by
  \<^verbatim>\<open>pauli_label\<close>.\<close>

definition shift_label :: "PauliLabel \<Rightarrow> nat \<Rightarrow> PauliLabel" where
  "shift_label op shift = (\<lambda>(idx, id). (idx + shift, id)) |`| op"

fun shift_terms :: "Operator \<Rightarrow> nat \<Rightarrow> Operator \<Rightarrow> Operator" where
  "shift_terms [] shift hamiltonian_shifted = hamiltonian_shifted"
| "shift_terms ((op, coef) # rest) shift hamiltonian_shifted =
     (if op = PAULI_IDENTITY
      then shift_terms rest shift (add_term hamiltonian_shifted PAULI_IDENTITY coef)
      else shift_terms rest shift (add_term hamiltonian_shifted (shift_label op shift) coef))"

definition get_shifted_hamiltonian :: "Operator \<Rightarrow> nat \<Rightarrow> Operator" where
  "get_shifted_hamiltonian hamiltonian shift = shift_terms hamiltonian shift []"

subsection \<open>The Trotter templates\<close>

text \<open>
  Python names that start with an underscore lose it here.  The library function
  \<^verbatim>\<open>trotter_suzuki_decomposition\<close> is a parameter of the model, written \<open>tsd\<close>: it
  takes the operator, the time and the recursion depth, and returns the ordered
  (label, coefficient) pairs.  The code hands it whatever depth the caller's
  order gives, so it is allowed to fail; its error then leaves the calling
  function as a Python exception does.
\<close>

type_synonym Decomposition = "Operator \<Rightarrow> real \<Rightarrow> int \<Rightarrow> error + Operator"

definition add_single_term_for_trotter_time_evolution ::
  "ParametricCircuit \<Rightarrow> Parameter \<Rightarrow> PauliLabel \<Rightarrow> complex \<Rightarrow> int \<Rightarrow> ParametricCircuit"
where
  "add_single_term_for_trotter_time_evolution circuit t op coeff n_trotter =
    (if op = PAULI_IDENTITY then circuit
     else add_ParametricPauliRotation_gate circuit op [(t, 2 * Re coeff / of_int n_trotter)])"

definition get_trotter_pauli_coefficient_pairs ::
  "Decomposition \<Rightarrow> Operator \<Rightarrow> int \<Rightarrow> error + Operator"
where
  "get_trotter_pauli_coefficient_pairs tsd hamiltonian trotter_order =
    (if trotter_order = 1 then Inr hamiltonian
     else if trotter_order mod 2 \<noteq> 0
       then Inl (AssertionError ''Trotter order must be 1 or an even number.'')
       else
         (case tsd hamiltonian 1 (trotter_order div 2) of
            Inl e \<Rightarrow> Inl e
          | Inr decomposition \<Rightarrow> Inr (map (\<lambda>(op, coeff). (op, coeff)) decomposition)))"

text \<open>The two nested \<^verbatim>\<open>for\<close> loops of the template builders: the inner one over the
  pairs, the outer one over \<^verbatim>\<open>range(n_trotter)\<close>.\<close>

fun for_op_coef ::
  "(ParametricCircuit \<Rightarrow> PauliLabel \<Rightarrow> complex \<Rightarrow> ParametricCircuit) \<Rightarrow>
   ParametricCircuit \<Rightarrow> Operator \<Rightarrow> ParametricCircuit"
where
  "for_op_coef body circuit [] = circuit"
| "for_op_coef body circuit ((op, coef) # rest) = for_op_coef body (body circuit op coef) rest"

fun for_range :: "nat \<Rightarrow> ('c \<Rightarrow> 'c) \<Rightarrow> 'c \<Rightarrow> 'c" where
  "for_range 0 body circuit = circuit"
| "for_range (Suc k) body circuit = for_range k body (body circuit)"

definition get_trotter_time_evolution_operator ::
  "Decomposition \<Rightarrow> Operator \<Rightarrow> nat \<Rightarrow> int \<Rightarrow> int \<Rightarrow> error + ParametricCircuit"
where
  "get_trotter_time_evolution_operator tsd hamiltonian n_state_qubits n_trotter trotter_order =
    (let circuit = new_ParametricCircuit n_state_qubits;
         circuit = add_parameter circuit ''t''
     in case get_trotter_pauli_coefficient_pairs tsd hamiltonian trotter_order of
          Inl e \<Rightarrow> Inl e
        | Inr op_coeff_pair \<Rightarrow>
            Inr (for_range (nat n_trotter)
                  (\<lambda>circuit. for_op_coef
                     (\<lambda>circuit op coef.
                        add_single_term_for_trotter_time_evolution circuit ''t'' op coef n_trotter)
                     circuit op_coeff_pair)
                  circuit))"

text \<open>
  In the controlled case \<^verbatim>\<open>pauli_label(str(op) + " Z0")\<close> prints the label, adds
  a Z on qubit 0 and parses the string: the label with the pair (0, Z) added.
\<close>

definition add_single_term_for_controlled_time_evolution ::
  "ParametricCircuit \<Rightarrow> Parameter \<Rightarrow> PauliLabel \<Rightarrow> complex \<Rightarrow> int \<Rightarrow> ParametricCircuit"
where
  "add_single_term_for_controlled_time_evolution circuit t op coeff n_trotter =
    (if op = PAULI_IDENTITY
     then add_ParametricRZ_gate circuit 0 [(t, - Re coeff / of_int n_trotter)]
     else
       let circuit = add_ParametricPauliRotation_gate circuit op [(t, Re coeff / of_int n_trotter)];
           extended_op = finsert (0, Pauli_Z) op
       in add_ParametricPauliRotation_gate circuit extended_op
            [(t, - Re coeff / of_int n_trotter)])"

definition get_trotter_controlled_time_evolution_operator ::
  "Decomposition \<Rightarrow> Operator \<Rightarrow> nat \<Rightarrow> int \<Rightarrow> int \<Rightarrow> error + ParametricCircuit"
where
  "get_trotter_controlled_time_evolution_operator tsd hamiltonian n_state_qubits n_trotter trotter_order =
    (let circuit = new_ParametricCircuit (n_state_qubits + 1);
         circuit = add_parameter circuit ''t'';
         hamiltonian_shifted = get_shifted_hamiltonian hamiltonian 1
     in case get_trotter_pauli_coefficient_pairs tsd hamiltonian_shifted trotter_order of
          Inl e \<Rightarrow> Inl e
        | Inr op_coeff_pair \<Rightarrow>
            Inr (for_range (nat n_trotter)
                  (\<lambda>circuit. for_op_coef
                     (\<lambda>circuit op coef.
                        add_single_term_for_controlled_time_evolution circuit ''t'' op coef n_trotter)
                     circuit op_coeff_pair)
                  circuit))"

subsection \<open>The factories\<close>

record QubitHamiltonianInput =
  n_state_qubit :: nat
  qubit_hamiltonian :: Operator

type_synonym CircuitTranspiler = "QuantumCircuit \<Rightarrow> QuantumCircuit"

text \<open>
  Modelled from the spec: the decorator \<^verbatim>\<open>apply_transpiler\<close>, defined in
  \<^verbatim>\<open>quri_algo/circuit/utils/transpile.py\<close>, which is not among the sources.  The
  spec has transpilation as an external collaborator that lowers the circuit a
  factory has built; every factory takes an optional \<^verbatim>\<open>transpiler\<close>, \<^verbatim>\<open>None\<close> by
  default.  The circuit that the decorated method returns is handed to the
  factory's transpiler when there is one, and is returned as it is when there is
  none; an exception of the method passes through.
\<close>

definition apply_transpiler ::
  "CircuitTranspiler option \<Rightarrow> error + QuantumCircuit \<Rightarrow> error + QuantumCircuit"
where
  "apply_transpiler transpiler result =
    (case result of
       Inl e \<Rightarrow> Inl e
     | Inr circuit \<Rightarrow> (case transpiler of None \<Rightarrow> Inr circuit | Some f \<Rightarrow> Inr (f circuit)))"

text \<open>
  The plain and the controlled factory classes have the same attributes, so one
  record serves both; they differ in \<^verbatim>\<open>__init__\<close> and, for the fixed interval, in
  \<^verbatim>\<open>__call__\<close>.
\<close>

record FixedStepFactory =
  fs_n_trotter :: int
  fs_encoded_problem :: QubitHamiltonianInput
  fs_qubit_count :: nat
  fs_trotter_order :: int
  fs_transpiler :: "CircuitTranspiler option"
  fs_param_evo_circuit :: ParametricCircuit

definition FixedStepTrotterTimeEvolutionCircuitFactory_init ::
  "Decomposition \<Rightarrow> QubitHamiltonianInput \<Rightarrow> int \<Rightarrow> int \<Rightarrow> CircuitTranspiler option \<Rightarrow>
   error + FixedStepFactory"
where
  "FixedStepTrotterTimeEvolutionCircuitFactory_init tsd encoded_problem n_trotter trotter_order transpiler =
    (case get_trotter_time_evolution_operator tsd (qubit_hamiltonian encoded_problem)
            (n_state_qubit encoded_problem) n_trotter trotter_order of
       Inl e \<Rightarrow> Inl e
     | Inr circuit \<Rightarrow>
         Inr \<lparr>fs_n_trotter = n_trotter, fs_encoded_problem = encoded_problem,
              fs_qubit_count = n_state_qubit encoded_problem, fs_trotter_order = trotter_order,
              fs_transpiler = transpiler, fs_param_evo_circuit = circuit\<rparr>)"

definition FixedStepTrotterControlledTimeEvolutionCircuitFactory_init ::
  "Decomposition \<Rightarrow> QubitHamiltonianInput \<Rightarrow> int \<Rightarrow> int \<Rightarrow> CircuitTranspiler option \<Rightarrow>
   error + FixedStepFactory"
where
  "FixedStepTrotterControlledTimeEvolutionCircuitFactory_init tsd encoded_problem n_trotter trotter_order transpiler =
    (case get_trotter_controlled_time_evolution_operator tsd (qubit_hamiltonian encoded_problem)
            (n_state_qubit encoded_problem) n_trotter trotter_order of
       Inl e \<Rightarrow> Inl e
     | Inr circuit \<Rightarrow>
         Inr \<lparr>fs_n_trotter = n_trotter, fs_encoded_problem = encoded_problem,
              fs_qubit_count = n_state_qubit encoded_problem, fs_trotter_order = trotter_order,
              fs_transpiler = transpiler, fs_param_evo_circuit = circuit\<rparr>)"

definition FixedStepFactory_call :: "FixedStepFactory \<Rightarrow> real \<Rightarrow> error + QuantumCircuit" where
  "FixedStepFactory_call self evolution_time =
    apply_transpiler (fs_transpiler self)
      (Inr (bind_parameters (fs_param_evo_circuit self) [evolution_time]))"

record FixedIntervalFactory =
  fi_encoded_problem :: QubitHamiltonianInput
  fi_qubit_count :: nat
  fi_time_step :: real
  fi_transpiler :: "CircuitTranspiler option"
  fi_trotter_order :: int
  fi_single_time_step_circuit :: QuantumCircuit

definition FixedIntervalTrotterTimeEvolutionCircuitFactory_init ::
  "Decomposition \<Rightarrow> QubitHamiltonianInput \<Rightarrow> real \<Rightarrow> int \<Rightarrow> CircuitTranspiler option \<Rightarrow>
   error + FixedIntervalFactory"
where
  "FixedIntervalTrotterTimeEvolutionCircuitFactory_init tsd encoded_problem time_step trotter_order transpiler =
    (case get_trotter_time_evolution_operator tsd (qubit_hamiltonian encoded_problem)
            (n_state_qubit encoded_problem) 1 trotter_order of
       Inl e \<Rightarrow> Inl e
     | Inr circuit \<Rightarrow>
         Inr \<lparr>fi_encoded_problem = encoded_problem,
              fi_qubit_count = n_state_qubit encoded_problem, fi_time_step = time_step,
              fi_transpiler = transpiler, fi_trotter_order = trotter_order,
              fi_single_time_step_circuit = bind_parameters circuit [time_step]\<rparr>)"

definition FixedIntervalTrotterControlledTimeEvolutionCircuitFactory_init ::
  "Decomposition \<Rightarrow> QubitHamiltonianInput \<Rightarrow> real \<Rightarrow> int \<Rightarrow> CircuitTranspiler option \<Rightarrow>
   error + FixedIntervalFactory"
where
  "FixedIntervalTrotterControlledTimeEvolutionCircuitFactory_init tsd encoded_problem time_step trotter_order transpiler =
    (case get_trotter_controlled_time_evolution_operator tsd (qubit_hamiltonian encoded_problem)
            (n_state_qubit encoded_problem) 1 trotter_order of
       Inl e \<Rightarrow> Inl e
     | Inr circuit \<Rightarrow>
         Inr \<lparr>fi_encoded_problem = encoded_problem,
              fi_qubit_count = n_state_qubit encoded_problem, fi_time_step = time_step,
              fi_transpiler = transpiler, fi_trotter_order = trotter_order,
              fi_single_time_step_circuit = bind_parameters circuit [time_step]\<rparr>)"



text \<open>
  The top-level factories.  \<^verbatim>\<open>self._factory\<close> is declared but assigned only in
  the two branches, so it is optional here.
\<close>

datatype InnerFactory =
    FixedInterval FixedIntervalFactory
  | FixedStep FixedStepFactory

record TrotterFactory =
  tf_encoded_problem :: QubitHamiltonianInput
  tf_qubit_count :: nat
  tf_time_step :: "real option"
  tf_n_trotter :: "int option"
  tf_trotter_order :: int
  tf_transpiler :: "CircuitTranspiler option"
  tf_factory :: "InnerFactory option"

definition TrotterTimeEvolutionCircuitFactory_init ::
  "Decomposition \<Rightarrow> QubitHamiltonianInput \<Rightarrow> real option \<Rightarrow> int option \<Rightarrow> int \<Rightarrow>
   CircuitTranspiler option \<Rightarrow> error + TrotterFactory"
where
  "TrotterTimeEvolutionCircuitFactory_init tsd encoded_problem time_step n_trotter trotter_order transpiler =
    (let self = \<lparr>tf_encoded_problem = encoded_problem,
                 tf_qubit_count = n_state_qubit encoded_problem, tf_time_step = time_step,
                 tf_n_trotter = n_trotter, tf_trotter_order = trotter_order,
                 tf_transpiler = transpiler, tf_factory = None\<rparr>
     in if \<not> ((time_step \<noteq> None) \<noteq> (n_trotter \<noteq> None))
        then Inl (AssertionError
          ''One and only one of time_step and n_trotter is allowed to be specified.'')
        else
          (case time_step of
             Some ts \<Rightarrow>
               (case FixedIntervalTrotterTimeEvolutionCircuitFactory_init tsd encoded_problem ts
                       trotter_order transpiler of
                  Inl e \<Rightarrow> Inl e
                | Inr f \<Rightarrow> Inr (self\<lparr>tf_factory := Some (FixedInterval f)\<rparr>))
           | None \<Rightarrow>
               (case n_trotter of
                  Some n \<Rightarrow>
                    (case FixedStepTrotterTimeEvolutionCircuitFactory_init tsd encoded_problem n
                            trotter_order transpiler of
                       Inl e \<Rightarrow> Inl e
                     | Inr f \<Rightarrow> Inr (self\<lparr>tf_factory := Some (FixedStep f)\<rparr>))
                | None \<Rightarrow> Inr self)))"

definition TrotterControlledTimeEvolutionCircuitFactory_init ::
  "Decomposition \<Rightarrow> QubitHamiltonianInput \<Rightarrow> real option \<Rightarrow> int option \<Rightarrow> int \<Rightarrow>
   CircuitTranspiler option \<Rightarrow> error + TrotterFactory"
where
  "TrotterControlledTimeEvolutionCircuitFactory_init tsd encoded_problem time_step n_trotter trotter_order transpiler =
    (let self = \<lparr>tf_encoded_problem = encoded_problem,
                 tf_qubit_count = n_state_qubit encoded_problem, tf_time_step = time_step,
                 tf_n_trotter = n_trotter, tf_trotter_order = trotter_order,
                 tf_transpiler = transpiler, tf_factory = None\<rparr>
     in if \<not> ((time_step \<noteq> None) \<noteq> (n_trotter \<noteq> None))
        then Inl (AssertionError
          ''One and only one of time_step and n_trotter is allowed to be specified.'')
        else
          (case time_step of
             Some ts \<Rightarrow>
               (case FixedIntervalTrotterControlledTimeEvolutionCircuitFactory_init tsd
                       encoded_problem ts trotter_order transpiler of
                  Inl e \<Rightarrow> Inl e
                | Inr f \<Rightarrow> Inr (self\<lparr>tf_factory := Some (FixedInterval f)\<rparr>))
           | None \<Rightarrow>
               (case n_trotter of
                  Some n \<Rightarrow>
                    (case FixedStepTrotterControlledTimeEvolutionCircuitFactory_init tsd
                            encoded_problem n trotter_order transpiler of
                       Inl e \<Rightarrow> Inl e
                     | Inr f \<Rightarrow> Inr (self\<lparr>tf_factory := Some (FixedStep f)\<rparr>))
                | None \<Rightarrow> Inr self)))"

subsection \<open>The cached partial templates\<close>






section \<open>Properties\<close>

subsection \<open>The Hadamard test circuit\<close>

lemma construct_hadamard_circuit_eq:
  "construct_hadamard_circuit inner test_real pre post =
    \<lparr>qubit_count = qubit_count inner,
     gates = [H_gate 0] @ (case pre of None \<Rightarrow> [] | Some c \<Rightarrow> gates c) @ gates inner
       @ (case post of None \<Rightarrow> [] | Some c \<Rightarrow> gates c)
       @ (if test_real then [] else [Sdag_gate 0]) @ [H_gate 0]\<rparr>"
  by (cases pre; cases post)
    (simp_all add: construct_hadamard_circuit_def new_QuantumCircuit_def add_H_gate_def
      add_Sdag_gate_def extend_circuit_def)

text \<open>
  Claim C9, as amended.  For every inner circuit, optional pre and post circuits
  and flag \<open>test_real\<close>, \<^verbatim>\<open>construct_hadamard_circuit\<close> produces exactly the gate
  sequence H on qubit 0, the pre circuit (if given), the inner circuit, the post
  circuit (if given), S-dagger on qubit 0 if and only if \<open>test_real\<close> is false,
  then H on qubit 0.  The wrapper itself adds exactly two Hadamard gates on qubit
  0, and one S-dagger gate on qubit 0 precisely when \<open>test_real\<close> is false: the
  output holds two Hadamard gates on qubit 0 more than the pre, inner and post
  circuits together, and one S-dagger gate on qubit 0 more than they do when
  \<open>test_real\<close> is false, none more when it is true.
\<close>

theorem construct_hadamard_circuit_sequence:
  "gates (construct_hadamard_circuit inner test_real pre post) =
      [H_gate 0] @ (case pre of None \<Rightarrow> [] | Some c \<Rightarrow> gates c) @ gates inner
        @ (case post of None \<Rightarrow> [] | Some c \<Rightarrow> gates c)
        @ (if test_real then [] else [Sdag_gate 0]) @ [H_gate 0]
   \<and> count_list (gates (construct_hadamard_circuit inner test_real pre post)) (H_gate 0) =
      2 + count_list ((case pre of None \<Rightarrow> [] | Some c \<Rightarrow> gates c) @ gates inner
            @ (case post of None \<Rightarrow> [] | Some c \<Rightarrow> gates c)) (H_gate 0)
   \<and> count_list (gates (construct_hadamard_circuit inner test_real pre post)) (Sdag_gate 0) =
      (if test_real then 0 else 1)
        + count_list ((case pre of None \<Rightarrow> [] | Some c \<Rightarrow> gates c) @ gates inner
            @ (case post of None \<Rightarrow> [] | Some c \<Rightarrow> gates c)) (Sdag_gate 0)"
  by (simp add: construct_hadamard_circuit_eq)

text \<open>The sequence and the two counts for an inner circuit of one rotation, with a
  pre circuit and \<open>test_real\<close> false.\<close>

theorem construct_hadamard_circuit_sequence_witness:
  "gates (construct_hadamard_circuit \<lparr>qubit_count = 2, gates = [RZ_gate 0 (- 2)]\<rparr> False
      (Some \<lparr>qubit_count = 2, gates = [S_gate 1]\<rparr>) None) =
     [H_gate 0, S_gate 1, RZ_gate 0 (- 2), Sdag_gate 0, H_gate 0]
   \<and> count_list (gates (construct_hadamard_circuit \<lparr>qubit_count = 2, gates = [RZ_gate 0 (- 2)]\<rparr>
        False (Some \<lparr>qubit_count = 2, gates = [S_gate 1]\<rparr>) None)) (H_gate 0) = 2
   \<and> count_list (gates (construct_hadamard_circuit \<lparr>qubit_count = 2, gates = [RZ_gate 0 (- 2)]\<rparr>
        False (Some \<lparr>qubit_count = 2, gates = [S_gate 1]\<rparr>) None)) (Sdag_gate 0) = 1"
  using construct_hadamard_circuit_sequence
    [of "\<lparr>qubit_count = 2, gates = [RZ_gate 0 (- 2)]\<rparr>" False
        "Some \<lparr>qubit_count = 2, gates = [S_gate 1]\<rparr>" None]
  by simp

text \<open>
  As first stated, C9 counts the gates of the whole output: exactly two Hadamard
  gates on qubit 0, and an S-dagger gate only when \<open>test_real\<close> is false.  An
  inner circuit that holds such a gate itself gives more: three Hadamard gates
  for the inner circuit H(0), and an S-dagger gate with \<open>test_real\<close> true for the
  inner circuit S-dagger(0).
\<close>

theorem construct_hadamard_circuit_counterexample:
  "count_list (gates (construct_hadamard_circuit \<lparr>qubit_count = 1, gates = [H_gate 0]\<rparr>
      True None None)) (H_gate 0) = 3
   \<and> count_list (gates (construct_hadamard_circuit \<lparr>qubit_count = 1, gates = [Sdag_gate 0]\<rparr>
      True None None)) (Sdag_gate 0) = 1"
  by (simp add: construct_hadamard_circuit_eq)

text \<open>
  Claim C10.  For every inner circuit and every combination of optional pre and
  post circuits and flag \<open>test_real\<close>, the circuit returned by
  \<^verbatim>\<open>construct_hadamard_circuit\<close> has the qubit count of the inner circuit: no
  qubit is added, and the test qubit is qubit 0 of the inner circuit, on which
  the first and the last gate of the output, both Hadamard gates, act.
\<close>

theorem construct_hadamard_circuit_qubit_count:
  "qubit_count (construct_hadamard_circuit inner test_real pre post) = qubit_count inner
   \<and> hd (gates (construct_hadamard_circuit inner test_real pre post)) = H_gate 0
   \<and> last (gates (construct_hadamard_circuit inner test_real pre post)) = H_gate 0"
  by (simp add: construct_hadamard_circuit_eq)

text \<open>An inner circuit on three qubits with smaller pre and post circuits.\<close>

theorem construct_hadamard_circuit_qubit_count_witness:
  "qubit_count (construct_hadamard_circuit \<lparr>qubit_count = 3, gates = [RZ_gate 0 1]\<rparr> True
      (Some \<lparr>qubit_count = 2, gates = [S_gate 1]\<rparr>) (Some \<lparr>qubit_count = 1, gates = []\<rparr>)) = 3"
  using construct_hadamard_circuit_qubit_count
    [of "\<lparr>qubit_count = 3, gates = [RZ_gate 0 1]\<rparr>" True
        "Some \<lparr>qubit_count = 2, gates = [S_gate 1]\<rparr>" "Some \<lparr>qubit_count = 1, gates = []\<rparr>"]
  by simp

subsection \<open>The step count of a fixed time step\<close>

lemma py_int_np_sign: "py_int (np_sign x) = (if x < 0 then - 1 else if x = 0 then 0 else 1)"
  by (simp add: py_int_def np_sign_def ceiling_def)













text \<open>
  Claim C4 says that the step computation fails exactly when the step ratio,
  rounded to 12 decimal digits, is not an integer.  The code compares the
  rounded ratio with the truncated one, \<^verbatim>\<open>int(step)\<close>, under the default
  tolerances of \<^verbatim>\<open>np.isclose\<close>, and so it decides otherwise on three inputs:
  \<^item> time step 1 and evolution time 2.9999999999999: the ratio rounds to 3, an
    integer, and the call fails, because the ratio truncates to 2;
  \<^item> time step 1 and evolution time 1000.005: the rounded ratio 1000.005 is not an
    integer, and the call returns 1000 steps, because 0.005 is within the relative
    tolerance \<open>1e-5\<close> of 1000;
  \<^item> the float64 values of \<^verbatim>\<open>0.78\<close> and of \<^verbatim>\<open>6 * 0.78\<close>, as exact fractions: the
    ratio is just below 6 and rounds to 6, and the call fails.
\<close>

theorem get_evolution_trotter_step_failing_inputs:
  "get_evolution_trotter_step 1 (29999999999999 / 10 ^ 13) =
      Inl (ValueError ''Evolution time is not an integer muliple of time step.'')
   \<and> np_round (\<bar>29999999999999 / 10 ^ 13\<bar> / 1) 12 = 3
   \<and> get_evolution_trotter_step 1 (1000005 / 1000) = Inr (1000, 1)
   \<and> np_round (\<bar>1000005 / 1000\<bar> / 1) 12 = 1000005 / 1000
   \<and> get_evolution_trotter_step (3512807709348987 / 4503599627370496)
        (658651445502935 / 140737488355328) =
      Inl (ValueError ''Evolution time is not an integer muliple of time step.'')"
  unfolding get_evolution_trotter_step_def py_int_np_sign
  by (simp add: np_isclose_def np_round_def np_rint_def py_int_def Let_def)

subsection \<open>The decomposition selector\<close>



text \<open>
  Where a concrete input needs a decomposition routine, the examples below take
  the one that answers with the items of the operator it is given, whatever the
  time and the depth.
\<close>



subsection \<open>The templates\<close>

lemma for_op_coef_gates:
  assumes "\<And>c op coef. body c op coef = c\<lparr>p_gates := p_gates c @ emit op coef\<rparr>"
  shows "for_op_coef body circuit pairs =
    circuit\<lparr>p_gates := p_gates circuit @ concat (map (\<lambda>(op, coef). emit op coef) pairs)\<rparr>"
proof (induction pairs arbitrary: circuit)
  case Nil
  show ?case by simp
next
  case (Cons p pairs)
  obtain op coef where p: "p = (op, coef)" by (cases p)
  have "for_op_coef body circuit (p # pairs) = for_op_coef body (body circuit op coef) pairs"
    by (simp add: p)
  also have "\<dots> = (body circuit op coef)\<lparr>p_gates := p_gates (body circuit op coef)
      @ concat (map (\<lambda>(op, coef). emit op coef) pairs)\<rparr>"
    by (rule Cons.IH)
  also have "\<dots> = circuit\<lparr>p_gates := p_gates circuit
      @ concat (map (\<lambda>(op, coef). emit op coef) (p # pairs))\<rparr>"
    by (simp add: assms p)
  finally show ?case .
qed

lemma for_range_gates:
  assumes "\<And>c. body c = c\<lparr>p_gates := p_gates c @ gs\<rparr>"
  shows "for_range k body circuit = circuit\<lparr>p_gates := p_gates circuit @ concat (replicate k gs)\<rparr>"
proof (induction k arbitrary: circuit)
  case 0
  show ?case by simp
next
  case (Suc k)
  have "for_range (Suc k) body circuit = for_range k body (body circuit)" by simp
  also have "\<dots> = (body circuit)\<lparr>p_gates := p_gates (body circuit) @ concat (replicate k gs)\<rparr>"
    by (rule Suc.IH)
  also have "\<dots> = circuit\<lparr>p_gates := p_gates circuit @ concat (replicate (Suc k) gs)\<rparr>"
    by (simp add: assms)
  finally show ?case .
qed

lemma eval_LinearMap_t: "eval_LinearMap [(t, v)] [(t, c)] = c * v"
  by (simp add: eval_LinearMap_def)


lemma bind_concat_map:
  assumes "\<And>op coef. map (bind_gate env) (emit op coef) = emit' op coef"
  shows "map (bind_gate env) (concat (replicate k (concat (map (\<lambda>(op, coef). emit op coef) pairs)))) =
    concat (replicate k (concat (map (\<lambda>(op, coef). emit' op coef) pairs)))"
proof -
  have inner: "map (bind_gate env) (concat (map (\<lambda>(op, coef). emit op coef) pairs)) =
      concat (map (\<lambda>(op, coef). emit' op coef) pairs)"
    by (induction pairs) (auto simp: assms)
  have outer: "map f (concat (replicate k xs)) = concat (replicate k (map f xs))" for f xs
    by (induction k) simp_all
  show ?thesis
    unfolding outer inner ..
qed

lemma plain_template:
  assumes "get_trotter_pauli_coefficient_pairs tsd hamiltonian trotter_order = Inr op_coeff_pair"
  shows "get_trotter_time_evolution_operator tsd hamiltonian n_state_qubits n_trotter trotter_order =
      Inr \<lparr>p_qubit_count = n_state_qubits, p_parameters = [''t''],
           p_gates = concat (replicate (nat n_trotter) (concat (map
             (\<lambda>(op, coef). if op = PAULI_IDENTITY then []
                else [ParametricPauliRotation_gate op [(''t'', 2 * Re coef / of_int n_trotter)]])
             op_coeff_pair)))\<rparr>"
proof -
  let ?emit = "\<lambda>op coef. if op = PAULI_IDENTITY then []
      else [ParametricPauliRotation_gate op [(''t'', 2 * Re coef / of_int n_trotter)]]"
  have single: "add_single_term_for_trotter_time_evolution c ''t'' op coef n_trotter =
      c\<lparr>p_gates := p_gates c @ ?emit op coef\<rparr>" for c op coef
    by (simp add: add_single_term_for_trotter_time_evolution_def
        add_ParametricPauliRotation_gate_def)
  have inner: "for_op_coef (\<lambda>circuit op coef.
        add_single_term_for_trotter_time_evolution circuit ''t'' op coef n_trotter) c op_coeff_pair =
      c\<lparr>p_gates := p_gates c @ concat (map (\<lambda>(op, coef). ?emit op coef) op_coeff_pair)\<rparr>" for c
    by (rule for_op_coef_gates) (rule single)
  show ?thesis
    unfolding get_trotter_time_evolution_operator_def Let_def assms sum.case
    by (subst for_range_gates [OF inner])
      (simp add: new_ParametricCircuit_def add_parameter_def)
qed

lemma controlled_template:
  assumes "get_trotter_pauli_coefficient_pairs tsd (get_shifted_hamiltonian hamiltonian 1)
      trotter_order = Inr op_coeff_pair"
  shows "get_trotter_controlled_time_evolution_operator tsd hamiltonian n_state_qubits n_trotter
        trotter_order =
      Inr \<lparr>p_qubit_count = n_state_qubits + 1, p_parameters = [''t''],
           p_gates = concat (replicate (nat n_trotter) (concat (map
             (\<lambda>(op, coef). if op = PAULI_IDENTITY
                then [ParametricRZ_gate 0 [(''t'', - Re coef / of_int n_trotter)]]
                else [ParametricPauliRotation_gate op [(''t'', Re coef / of_int n_trotter)],
                      ParametricPauliRotation_gate (finsert (0, Pauli_Z) op)
                        [(''t'', - Re coef / of_int n_trotter)]])
             op_coeff_pair)))\<rparr>"
proof -
  let ?emit = "\<lambda>op coef. if op = PAULI_IDENTITY
      then [ParametricRZ_gate 0 [(''t'', - Re coef / of_int n_trotter)]]
      else [ParametricPauliRotation_gate op [(''t'', Re coef / of_int n_trotter)],
            ParametricPauliRotation_gate (finsert (0, Pauli_Z) op)
              [(''t'', - Re coef / of_int n_trotter)]]"
  have single: "add_single_term_for_controlled_time_evolution c ''t'' op coef n_trotter =
      c\<lparr>p_gates := p_gates c @ ?emit op coef\<rparr>" for c op coef
    by (simp add: add_single_term_for_controlled_time_evolution_def
        add_ParametricPauliRotation_gate_def add_ParametricRZ_gate_def Let_def)
  have inner: "for_op_coef (\<lambda>circuit op coef.
        add_single_term_for_controlled_time_evolution circuit ''t'' op coef n_trotter) c op_coeff_pair =
      c\<lparr>p_gates := p_gates c @ concat (map (\<lambda>(op, coef). ?emit op coef) op_coeff_pair)\<rparr>" for c
    by (rule for_op_coef_gates) (rule single)
  show ?thesis
    unfolding get_trotter_controlled_time_evolution_operator_def Let_def assms sum.case
    by (subst for_range_gates [OF inner])
      (simp add: new_ParametricCircuit_def add_parameter_def)
qed

text \<open>
  Claim C2.  For every Hamiltonian, every \<open>n_trotter\<close> and every supported Trotter
  order, that is, whenever the decomposition selector returns a sequence of
  terms, the template built by \<^verbatim>\<open>get_trotter_time_evolution_operator\<close> is the
  circuit over \<open>n_state_qubits\<close> qubits with the one parameter \<open>t\<close> whose gates are
  \<open>n_trotter\<close> repetitions of the decomposed sequence, where an identity term
  gives no gate and every other term gives exactly one parametric Pauli rotation
  on the qubits and axes of the term with angle \<open>2 * Re coefficient / n_trotter\<close>
  times \<open>t\<close>.  Binding \<open>t\<close> gives these rotations with the angle evaluated.  For H =
  1.0 Identity on one qubit, \<open>n_trotter = 1\<close>, order 1, binding \<open>t = 2\<close> gives the
  empty circuit.
\<close>

theorem get_trotter_time_evolution_operator_template:
  assumes "get_trotter_pauli_coefficient_pairs tsd hamiltonian trotter_order = Inr op_coeff_pair"
  shows "get_trotter_time_evolution_operator tsd hamiltonian n_state_qubits n_trotter trotter_order =
      Inr \<lparr>p_qubit_count = n_state_qubits, p_parameters = [''t''],
           p_gates = concat (replicate (nat n_trotter) (concat (map
             (\<lambda>(op, coef). if op = PAULI_IDENTITY then []
                else [ParametricPauliRotation_gate op [(''t'', 2 * Re coef / of_int n_trotter)]])
             op_coeff_pair)))\<rparr>
    \<and> map_sum id (\<lambda>template. bind_parameters template [t])
        (get_trotter_time_evolution_operator tsd hamiltonian n_state_qubits n_trotter trotter_order) =
      Inr \<lparr>qubit_count = n_state_qubits,
           gates = concat (replicate (nat n_trotter) (concat (map
             (\<lambda>(op, coef). if op = PAULI_IDENTITY then []
                else [PauliRotation_gate op (2 * Re coef / of_int n_trotter * t)])
             op_coeff_pair)))\<rparr>
    \<and> map_sum id (\<lambda>template. bind_parameters template [2])
        (get_trotter_time_evolution_operator tsd [(PAULI_IDENTITY, 1)] 1 1 1) =
      Inr \<lparr>qubit_count = 1, gates = []\<rparr>"
proof -
  have unit: "get_trotter_pauli_coefficient_pairs tsd [(PAULI_IDENTITY, 1)] 1 = Inr [(PAULI_IDENTITY, 1)]"
    by (simp add: get_trotter_pauli_coefficient_pairs_def)
  have bind: "map (bind_gate [(''t'', t)])
      (if op = PAULI_IDENTITY then []
       else [ParametricPauliRotation_gate op [(''t'', 2 * Re coef / of_int n_trotter)]]) =
      (if op = PAULI_IDENTITY then []
       else [PauliRotation_gate op (2 * Re coef / of_int n_trotter * t)])" for op coef
    by (simp add: eval_LinearMap_t)
  show ?thesis
    unfolding plain_template [OF assms] plain_template [OF unit]
    by (simp add: bind_parameters_def bind_concat_map [OF bind])
qed

text \<open>Two Trotter steps of H = 1 + (3 + i) X0: the identity term is skipped, and the
  rotation about X0 has the coefficient \<open>2 * 3 / 2\<close>.\<close>

theorem get_trotter_time_evolution_operator_template_witness:
  "get_trotter_pauli_coefficient_pairs (\<lambda>hamiltonian param order. Inr hamiltonian)
      [(PAULI_IDENTITY, 1), ({|(0, Pauli_X)|}, Complex 3 1)] 1 =
      Inr [(PAULI_IDENTITY, 1), ({|(0, Pauli_X)|}, Complex 3 1)]
   \<and> get_trotter_time_evolution_operator (\<lambda>hamiltonian param order. Inr hamiltonian)
      [(PAULI_IDENTITY, 1), ({|(0, Pauli_X)|}, Complex 3 1)] 1 2 1 =
      Inr \<lparr>p_qubit_count = 1, p_parameters = [''t''],
           p_gates = [ParametricPauliRotation_gate {|(0, Pauli_X)|} [(''t'', 3)],
                      ParametricPauliRotation_gate {|(0, Pauli_X)|} [(''t'', 3)]]\<rparr>"
proof -
  have pairs: "get_trotter_pauli_coefficient_pairs (\<lambda>hamiltonian param order. Inr hamiltonian)
      [(PAULI_IDENTITY, 1), ({|(0, Pauli_X)|}, Complex 3 1)] 1 =
      Inr [(PAULI_IDENTITY, 1), ({|(0, Pauli_X)|}, Complex 3 1)]"
    by (simp add: get_trotter_pauli_coefficient_pairs_def)
  from get_trotter_time_evolution_operator_template [OF pairs, of 1 2 0] pairs
  show ?thesis
    by (simp add: numeral_2_eq_2 PAULI_IDENTITY_def)
qed

text \<open>
  The shifted Hamiltonian of an operator whose labels are distinct, as the keys
  of a dict are: the terms in their order, each qubit index raised by the
  shift, the terms with coefficient zero left out.  No shifted label holds a
  qubit below the shift.
\<close>

lemma shift_label_identity: "shift_label PAULI_IDENTITY shift = PAULI_IDENTITY"
  by (simp add: shift_label_def PAULI_IDENTITY_def)

lemma shift_label_inj: "shift_label a shift = shift_label b shift \<Longrightarrow> a = b"
proof -
  assume eq: "shift_label a shift = shift_label b shift"
  have inj: "inj (\<lambda>(idx :: nat, id :: SinglePauli). (idx + shift, id))"
    by (auto simp: inj_on_def)
  from eq have "(\<lambda>(idx, id). (idx + shift, id)) ` fset a = (\<lambda>(idx, id). (idx + shift, id)) ` fset b"
    unfolding shift_label_def by (metis fimage.rep_eq)
  then have "fset a = fset b" using inj by (simp add: inj_image_eq_iff)
  then show "a = b" by (simp add: fset_inject)
qed

lemma shift_label_qubits: "(q, p) |\<in>| shift_label op shift \<Longrightarrow> shift \<le> q"
  by (auto simp: shift_label_def)

lemma add_term_fresh:
  assumes "op \<notin> fst ` set h"
  shows "add_term h op coef = (if coef = 0 then h else h @ [(op, coef)])"
proof -
  have none: "map_of h op = None" using assms by (simp add: map_of_eq_None_iff)
  have upd: "AList.update op v h = h @ [(op, v)]" for v
    using assms by (induction h) auto
  show ?thesis by (simp add: add_term_def none upd)
qed

lemma shift_terms_step:
  "shift_terms ((op, coef) # rest) shift acc =
    shift_terms rest shift (add_term acc (shift_label op shift) coef)"
  by (simp add: shift_label_identity)

lemma shift_terms_distinct:
  assumes "distinct (map fst h)"
    and "fst ` set acc \<inter> (\<lambda>op. shift_label op shift) ` fst ` set h = {}"
  shows "shift_terms h shift acc =
    acc @ map (\<lambda>(op, coef). (shift_label op shift, coef)) (filter (\<lambda>(op, coef). coef \<noteq> 0) h)"
  using assms
proof (induction h arbitrary: acc)
  case Nil
  show ?case by simp
next
  case (Cons p h)
  obtain op coef where p: "p = (op, coef)" by (cases p)
  let ?acc = "add_term acc (shift_label op shift) coef"
  from Cons.prems(2) have fresh: "shift_label op shift \<notin> fst ` set acc"
    by (auto simp: p)
  have acc': "?acc = (if coef = 0 then acc else acc @ [(shift_label op shift, coef)])"
    by (rule add_term_fresh [OF fresh])
  from Cons.prems(1) have d: "distinct (map fst h)" and notin: "op \<notin> fst ` set h"
    by (auto simp: p)
  have new: "shift_label op shift \<notin> (\<lambda>op. shift_label op shift) ` fst ` set h"
    using notin by (auto dest: shift_label_inj)
  have disj: "fst ` set ?acc \<inter> (\<lambda>op. shift_label op shift) ` fst ` set h = {}"
    using Cons.prems(2) new unfolding acc' p by auto
  have "shift_terms (p # h) shift acc = shift_terms h shift ?acc"
    unfolding p by (rule shift_terms_step)
  also have "\<dots> = ?acc @ map (\<lambda>(op, coef). (shift_label op shift, coef))
      (filter (\<lambda>(op, coef). coef \<noteq> 0) h)"
    by (rule Cons.IH [OF d disj])
  also have "\<dots> = acc @ map (\<lambda>(op, coef). (shift_label op shift, coef))
      (filter (\<lambda>(op, coef). coef \<noteq> 0) (p # h))"
    unfolding acc' p by simp
  finally show ?case .
qed

lemma get_shifted_hamiltonian_distinct:
  assumes "distinct (map fst hamiltonian)"
  shows "get_shifted_hamiltonian hamiltonian shift =
    map (\<lambda>(op, coef). (shift_label op shift, coef)) (filter (\<lambda>(op, coef). coef \<noteq> 0) hamiltonian)"
  unfolding get_shifted_hamiltonian_def
  using shift_terms_distinct [OF assms, of "[]" shift] by simp

text \<open>So no term of a Hamiltonian shifted by 1 acts on qubit 0, and the Z that the
  controlled template adds on qubit 0 is a new pair of the label.\<close>

lemma shifted_terms_avoid_qubit_0:
  assumes "distinct (map fst hamiltonian)"
    and "(op, coef) \<in> set (get_shifted_hamiltonian hamiltonian 1)"
  shows "(0, p) |\<notin>| op"
proof
  assume in_op: "(0, p) |\<in>| op"
  from assms obtain op' where "op = shift_label op' 1"
    unfolding get_shifted_hamiltonian_distinct [OF assms(1)] by auto
  with in_op have "(1::nat) \<le> 0" by (auto dest: shift_label_qubits)
  then show False by simp
qed

text \<open>
  Claim C1.  For every Hamiltonian, every \<open>n_trotter\<close> and every supported Trotter
  order, the template built by \<^verbatim>\<open>get_trotter_controlled_time_evolution_operator\<close>
  is the circuit over \<open>n_state_qubits + 1\<close> qubits with the one parameter \<open>t\<close>
  whose gates are, per Trotter repetition and for each decomposed term of the
  Hamiltonian shifted by 1: for the identity term one parametric RZ rotation on
  qubit 0 with angle \<open>- Re coefficient / n_trotter\<close> times \<open>t\<close>; for any other term
  exactly two parametric Pauli rotations in this order, one on the term's qubits
  with angle \<open>Re coefficient / n_trotter\<close> times \<open>t\<close>, then one on the term's qubits
  and Pauli Z on qubit 0 with angle \<open>- Re coefficient / n_trotter\<close> times \<open>t\<close>.
\<close>

theorem get_trotter_controlled_time_evolution_operator_template:
  assumes "get_trotter_pauli_coefficient_pairs tsd (get_shifted_hamiltonian hamiltonian 1)
      trotter_order = Inr op_coeff_pair"
  shows "get_trotter_controlled_time_evolution_operator tsd hamiltonian n_state_qubits n_trotter
        trotter_order =
      Inr \<lparr>p_qubit_count = n_state_qubits + 1, p_parameters = [''t''],
           p_gates = concat (replicate (nat n_trotter) (concat (map
             (\<lambda>(op, coef). if op = PAULI_IDENTITY
                then [ParametricRZ_gate 0 [(''t'', - Re coef / of_int n_trotter)]]
                else [ParametricPauliRotation_gate op [(''t'', Re coef / of_int n_trotter)],
                      ParametricPauliRotation_gate (finsert (0, Pauli_Z) op)
                        [(''t'', - Re coef / of_int n_trotter)]])
             op_coeff_pair)))\<rparr>
    \<and> map_sum id (\<lambda>template. bind_parameters template [t])
        (get_trotter_controlled_time_evolution_operator tsd hamiltonian n_state_qubits n_trotter
          trotter_order) =
      Inr \<lparr>qubit_count = n_state_qubits + 1,
           gates = concat (replicate (nat n_trotter) (concat (map
             (\<lambda>(op, coef). if op = PAULI_IDENTITY
                then [RZ_gate 0 (- Re coef / of_int n_trotter * t)]
                else [PauliRotation_gate op (Re coef / of_int n_trotter * t),
                      PauliRotation_gate (finsert (0, Pauli_Z) op)
                        (- Re coef / of_int n_trotter * t)])
             op_coeff_pair)))\<rparr>"
proof -
  have bind: "map (bind_gate [(''t'', t)])
      (if op = PAULI_IDENTITY
       then [ParametricRZ_gate 0 [(''t'', - Re coef / of_int n_trotter)]]
       else [ParametricPauliRotation_gate op [(''t'', Re coef / of_int n_trotter)],
             ParametricPauliRotation_gate (finsert (0, Pauli_Z) op)
               [(''t'', - Re coef / of_int n_trotter)]]) =
      (if op = PAULI_IDENTITY
       then [RZ_gate 0 (- Re coef / of_int n_trotter * t)]
       else [PauliRotation_gate op (Re coef / of_int n_trotter * t),
             PauliRotation_gate (finsert (0, Pauli_Z) op) (- Re coef / of_int n_trotter * t)])"
    for op coef
    by (simp add: eval_LinearMap_t)
  show ?thesis
    unfolding controlled_template [OF assms]
    by (simp add: bind_parameters_def bind_concat_map [OF bind])
qed

text \<open>Two Trotter steps of H = 1 + 3 X0 on one qubit: X0 becomes X1, and each step
  is the RZ rotation followed by the two Pauli rotations.\<close>

theorem get_trotter_controlled_time_evolution_operator_template_witness:
  "get_trotter_pauli_coefficient_pairs (\<lambda>hamiltonian param order. Inr hamiltonian)
      (get_shifted_hamiltonian [(PAULI_IDENTITY, 1), ({|(0, Pauli_X)|}, 3)] 1) 1 =
      Inr [(PAULI_IDENTITY, 1), ({|(1, Pauli_X)|}, 3)]
   \<and> get_trotter_controlled_time_evolution_operator (\<lambda>hamiltonian param order. Inr hamiltonian)
      [(PAULI_IDENTITY, 1), ({|(0, Pauli_X)|}, 3)] 1 2 1 =
      Inr \<lparr>p_qubit_count = 2, p_parameters = [''t''],
           p_gates = [ParametricRZ_gate 0 [(''t'', - (1 / 2))],
                      ParametricPauliRotation_gate {|(1, Pauli_X)|} [(''t'', 3 / 2)],
                      ParametricPauliRotation_gate {|(0, Pauli_Z), (1, Pauli_X)|} [(''t'', - (3 / 2))],
                      ParametricRZ_gate 0 [(''t'', - (1 / 2))],
                      ParametricPauliRotation_gate {|(1, Pauli_X)|} [(''t'', 3 / 2)],
                      ParametricPauliRotation_gate {|(0, Pauli_Z), (1, Pauli_X)|} [(''t'', - (3 / 2))]]\<rparr>"
proof -
  have shifted: "get_shifted_hamiltonian [(PAULI_IDENTITY, 1), ({|(0, Pauli_X)|}, 3)] 1 =
      [(PAULI_IDENTITY, 1), ({|(1, Pauli_X)|}, 3)]"
    by (simp add: get_shifted_hamiltonian_def add_term_def shift_label_def PAULI_IDENTITY_def
        finsert_not_fempty [symmetric] del: One_nat_def)
  have pairs: "get_trotter_pauli_coefficient_pairs (\<lambda>hamiltonian param order. Inr hamiltonian)
      (get_shifted_hamiltonian [(PAULI_IDENTITY, 1), ({|(0, Pauli_X)|}, 3)] 1) 1 =
      Inr [(PAULI_IDENTITY, 1), ({|(1, Pauli_X)|}, 3)]"
    unfolding shifted by (simp add: get_trotter_pauli_coefficient_pairs_def)
  from get_trotter_controlled_time_evolution_operator_template [OF pairs, of 1 2 0] pairs
  show ?thesis
    by (simp add: numeral_2_eq_2 PAULI_IDENTITY_def finsert_not_fempty [symmetric])
qed

text \<open>For H = 1.0 Identity on one qubit, \<open>n_trotter = 1\<close> and order 1, binding \<open>t = 2\<close>
  gives the single rotation RZ on the control qubit with angle \<open>-2\<close>.\<close>

lemma controlled_identity_scenario:
  "map_sum id (\<lambda>template. bind_parameters template [2])
      (get_trotter_controlled_time_evolution_operator tsd [(PAULI_IDENTITY, 1)] 1 1 1) =
    Inr \<lparr>qubit_count = 2, gates = [RZ_gate 0 (- 2)]\<rparr>"
proof -
  have shifted: "get_shifted_hamiltonian [(PAULI_IDENTITY, 1)] 1 = [(PAULI_IDENTITY, 1)]"
    by (simp add: get_shifted_hamiltonian_def add_term_def)
  have pairs: "get_trotter_pauli_coefficient_pairs tsd
      (get_shifted_hamiltonian [(PAULI_IDENTITY, 1)] 1) 1 = Inr [(PAULI_IDENTITY, 1)]"
    unfolding shifted by (simp add: get_trotter_pauli_coefficient_pairs_def)
  show ?thesis
    unfolding controlled_template [OF pairs]
    by (simp add: bind_parameters_def eval_LinearMap_def)
qed

subsection \<open>The fixed-interval factories\<close>






subsection \<open>The top-level factories\<close>

lemma exactly_one_assert:
  "TrotterTimeEvolutionCircuitFactory_init tsd encoded_problem None None trotter_order transpiler =
      Inl (AssertionError ''One and only one of time_step and n_trotter is allowed to be specified.'')"
  "TrotterTimeEvolutionCircuitFactory_init tsd encoded_problem (Some ts) (Some n) trotter_order transpiler =
      Inl (AssertionError ''One and only one of time_step and n_trotter is allowed to be specified.'')"
  "TrotterControlledTimeEvolutionCircuitFactory_init tsd encoded_problem None None trotter_order transpiler =
      Inl (AssertionError ''One and only one of time_step and n_trotter is allowed to be specified.'')"
  "TrotterControlledTimeEvolutionCircuitFactory_init tsd encoded_problem (Some ts) (Some n) trotter_order transpiler =
      Inl (AssertionError ''One and only one of time_step and n_trotter is allowed to be specified.'')"
  by (simp_all add: TrotterTimeEvolutionCircuitFactory_init_def
      TrotterControlledTimeEvolutionCircuitFactory_init_def)

text \<open>
  Claim C7.  For the plain and the controlled top-level factory, construction
  succeeds only when exactly one of \<open>time_step\<close> and \<open>n_trotter\<close> is supplied, and
  then an inner factory has been built; supplying both or neither fails with the
  assertion error "One and only one of time_step and n_trotter is allowed to be
  specified", whatever the Hamiltonian and the Trotter order are: the check
  comes before any circuit is built.
\<close>

theorem Trotter_factory_init_exactly_one:
  "((time_step = None) = (n_trotter = None) \<longrightarrow>
      TrotterTimeEvolutionCircuitFactory_init tsd encoded_problem time_step n_trotter
          trotter_order transpiler =
        Inl (AssertionError
          ''One and only one of time_step and n_trotter is allowed to be specified.'')
      \<and> TrotterControlledTimeEvolutionCircuitFactory_init tsd encoded_problem time_step n_trotter
          trotter_order transpiler =
        Inl (AssertionError
          ''One and only one of time_step and n_trotter is allowed to be specified.''))
   \<and> (\<forall>self. TrotterTimeEvolutionCircuitFactory_init tsd encoded_problem time_step n_trotter
          trotter_order transpiler = Inr self \<longrightarrow>
        (time_step = None) \<noteq> (n_trotter = None) \<and> tf_factory self \<noteq> None)
   \<and> (\<forall>self. TrotterControlledTimeEvolutionCircuitFactory_init tsd encoded_problem time_step
          n_trotter trotter_order transpiler = Inr self \<longrightarrow>
        (time_step = None) \<noteq> (n_trotter = None) \<and> tf_factory self \<noteq> None)"
proof (cases time_step; cases n_trotter)
  fix ts n
  assume "time_step = Some ts" "n_trotter = Some n"
  then show ?thesis by (simp add: exactly_one_assert)
next
  assume "time_step = None" "n_trotter = None"
  then show ?thesis by (simp add: exactly_one_assert)
next
  fix ts
  assume "time_step = Some ts" "n_trotter = None"
  then show ?thesis
    by (auto simp: TrotterTimeEvolutionCircuitFactory_init_def
        TrotterControlledTimeEvolutionCircuitFactory_init_def split: sum.splits)
next
  fix n
  assume "time_step = None" "n_trotter = Some n"
  then show ?thesis
    by (auto simp: TrotterTimeEvolutionCircuitFactory_init_def
        TrotterControlledTimeEvolutionCircuitFactory_init_def split: sum.splits)
qed

text \<open>Both supplied, with the unsupported order 3: the error is the one of the
  exclusivity check, not the one of the order.  Neither supplied: the same error.\<close>

theorem Trotter_factory_init_exactly_one_witness:
  "TrotterTimeEvolutionCircuitFactory_init (\<lambda>hamiltonian param order. Inr hamiltonian)
      \<lparr>n_state_qubit = 1, qubit_hamiltonian = [(PAULI_IDENTITY, 1)]\<rparr> (Some 1) (Some 1) 3 None =
      Inl (AssertionError ''One and only one of time_step and n_trotter is allowed to be specified.'')
   \<and> TrotterControlledTimeEvolutionCircuitFactory_init (\<lambda>hamiltonian param order. Inr hamiltonian)
      \<lparr>n_state_qubit = 1, qubit_hamiltonian = [(PAULI_IDENTITY, 1)]\<rparr> None None 1 None =
      Inl (AssertionError ''One and only one of time_step and n_trotter is allowed to be specified.'')"
  using Trotter_factory_init_exactly_one
    [of "Some 1" "Some 1" "\<lambda>hamiltonian param order. Inr hamiltonian"
        "\<lparr>n_state_qubit = 1, qubit_hamiltonian = [(PAULI_IDENTITY, 1)]\<rparr>" 3 None]
    Trotter_factory_init_exactly_one
    [of None None "\<lambda>hamiltonian param order. Inr hamiltonian"
        "\<lparr>n_state_qubit = 1, qubit_hamiltonian = [(PAULI_IDENTITY, 1)]\<rparr>" 1 None]
  by simp

subsection \<open>The cached partial templates\<close>








end
